theory Spec2Isabelle
  imports Complex_Main
begin

section \<open>Rafeeq health monitor: the alert decision engine of \<open>main.py\<close>\<close>

text \<open>
  Conventions of the embedding.
  \<^item> Python's unbounded integers (heart rate, SpO2, scores, the call counter) are \<open>int\<close>.
  \<^item> Python floats (the temperature, \<open>time.time()\<close>) are the real numbers they denote; every
    comparison of the source is against a constant that a float holds exactly (36, 38, 38.5)
    or against a difference of two clock readings, taken exactly.
  \<^item> The strings of the source that the logic branches on or stores (emotion names, colours,
    factor tags, alert types, column names) are kept as strings.
\<close>

subsection \<open>\<open>EmotionAnalyzer.analyze\<close> (lines 36-96)\<close>

text \<open>The dictionary returned by \<open>analyze\<close>: its four keys.\<close>

record assessment =
  emotion :: string
  score :: int
  color :: string
  factors :: "string list"

text \<open>
  Lines 74-89: the classification block of \<open>analyze\<close>, as a function of the accumulated
  score, returning the pair (emotion, color) that the block assigns.
\<close>

definition emotion_classification :: "int \<Rightarrow> string \<times> string" where
  "emotion_classification sc =
     (if sc \<ge> 60 then (''CRITICAL DISTRESS'', ''#D50000'')
      else if sc \<ge> 40 then (''HIGH ANXIETY'', ''#FF6D00'')
      else if sc \<ge> 25 then (''MODERATE STRESS'', ''#FFA000'')
      else if sc \<ge> 10 then (''MILD DISCOMFORT'', ''#FBC02D'')
      else (''STABLE'', ''#00C853''))"

text \<open>
  Lines 40-96. The pair \<open>(sc, fs)\<close> is the state of the two local variables \<open>score\<close> and
  \<open>factors\<close> after each block, in the order of the source.
\<close>

definition analyze :: "int \<Rightarrow> int \<Rightarrow> real \<Rightarrow> bool \<Rightarrow> bool \<Rightarrow> assessment" where
  "analyze heart_rate spo2 temp fall_detected help_pressed =
     (let (sc0, fs0) = (0::int, [] :: string list);
          (sc1, fs1) =
            (if heart_rate > 130 then (sc0 + 30, fs0 @ [''elevated_hr''])
             else if heart_rate > 110 then (sc0 + 15, fs0 @ [''raised_hr''])
             else (sc0, fs0));
          (sc2, fs2) =
            (if spo2 < 92 then (sc1 + 25, fs1 @ [''low_oxygen''])
             else if spo2 < 95 then (sc1 + 10, fs1 @ [''reduced_oxygen''])
             else (sc1, fs1));
          (sc3, fs3) =
            (if temp > 38 \<or> temp < 36 then (sc2 + 15, fs2 @ [''temp_abnormal''])
             else (sc2, fs2));
          (sc4, fs4) =
            (if fall_detected then (sc3 + 40, fs3 @ [''fall_trauma'']) else (sc3, fs3));
          (sc5, fs5) =
            (if help_pressed then (sc4 + 35, fs4 @ [''distress_signal'']) else (sc4, fs4))
      in \<lparr> emotion = fst (emotion_classification sc5),
           score = sc5,
           color = snd (emotion_classification sc5),
           factors = fs5 \<rparr>)"

subsection \<open>Thresholds and the cooldown constant (lines 22-32)\<close>

definition HEART_RATE_CRITICAL :: int where "HEART_RATE_CRITICAL = 140"
definition SPO2_CRITICAL :: int where "SPO2_CRITICAL = 90"
definition TEMP_CRITICAL_HIGH :: real where "TEMP_CRITICAL_HIGH = 38.5"
definition AUTO_CALL_COOLDOWN :: real where "AUTO_CALL_COOLDOWN = 30"

subsection \<open>The workbook behind \<open>VitalSignsMonitor\<close> (lines 100-237)\<close>

text \<open>
  A sheet is its header row and its data rows, in order. The rows of sheet Vital_Signs and of
  sheet Emergency_Calls are records with one field per column; the sheets Fall_Events and
  Help_Requests have the single time-stamp column, so a row is the time-stamp string.
\<close>

record 'r sheet =
  columns :: "string list"
  rows :: "'r list"

record vital_row =
  Timestamp :: string
  Heart_Rate_BPM :: int
  SpO2_Percent :: int
  Temperature_Celsius :: real
  Emotional_State :: string
  Emotion_Score :: int

record call_row =
  Call_Timestamp :: string
  Alert_Type :: string
  Heart_Rate :: int
  SpO2 :: int
  Temperature :: real
  Emotion_State :: string
  Auto_Triggered :: string

record workbook =
  Vital_Signs :: "vital_row sheet"
  Emergency_Calls :: "call_row sheet"
  Fall_Events :: "string sheet"
  Help_Requests :: "string sheet"

text \<open>
  The file \<open>self.excel_file\<close> on disk: \<open>None\<close> when the path does not exist, else the
  workbook it holds.

  Lines 134-158, \<open>init_excel_file\<close>: the four sheets are written with their column names and
  no data row only when the path does not exist.
\<close>

definition new_workbook :: workbook where
  "new_workbook =
     \<lparr> Vital_Signs =
         \<lparr> columns = [''Timestamp'', ''Heart_Rate_BPM'', ''SpO2_Percent'',
                       ''Temperature_Celsius'', ''Emotional_State'', ''Emotion_Score''],
           rows = [] \<rparr>,
       Emergency_Calls =
         \<lparr> columns = [''Timestamp'', ''Alert_Type'', ''Heart_Rate'', ''SpO2'',
                       ''Temperature'', ''Emotion_State'', ''Auto_Triggered''],
           rows = [] \<rparr>,
       Fall_Events = \<lparr> columns = [''Fall_Timestamp''], rows = [] \<rparr>,
       Help_Requests = \<lparr> columns = [''Help_Request_Timestamp''], rows = [] \<rparr> \<rparr>"

definition init_excel_file :: "workbook option \<Rightarrow> workbook option" where
  "init_excel_file excel_file = (if excel_file = None then Some new_workbook else excel_file)"

text \<open>
  The two halves of every \<open>append_*\<close> method. \<open>concat_row\<close> is
  \<open>pd.concat([existing_df, new_row], ignore_index=True)\<close>. \<open>overlay\<close> is
  \<open>to_excel\<close> under \<open>mode='a', if_sheet_exists='overlay'\<close>: the frame is written from
  the top of the sheet found on disk, and rows of that sheet below the frame stay.
\<close>

definition concat_row :: "'r sheet \<Rightarrow> 'r \<Rightarrow> 'r sheet" where
  "concat_row existing_df new_row = existing_df \<lparr> rows := rows existing_df @ [new_row] \<rparr>"

definition overlay :: "'r sheet \<Rightarrow> 'r sheet \<Rightarrow> 'r sheet" where
  "overlay updated_df on_disk =
     \<lparr> columns = columns updated_df,
       rows = rows updated_df @ drop (length (rows updated_df)) (rows on_disk) \<rparr>"

text \<open>
  Lines 160-237. Each method reads its sheet, appends the row and writes the sheet back; the
  whole body is inside \<open>try\<close>, and the \<open>except\<close> branch prints and returns. On a missing
  file \<open>pd.read_excel\<close> raises, so nothing is written and the file is still missing. The
  time stamp \<open>datetime.now().strftime(...)\<close> is the parameter \<open>stamp\<close>. Here the method
  runs without another thread in between; the two halves as separate steps follow below.
\<close>

definition append_vital_reading ::
  "int \<Rightarrow> int \<Rightarrow> real \<Rightarrow> string \<Rightarrow> int \<Rightarrow> string \<Rightarrow> workbook option \<Rightarrow> workbook option" where
  "append_vital_reading hr spo2 temp emotion_name emotion_score stamp excel_file =
     (case excel_file of
        None \<Rightarrow> None
      | Some wb \<Rightarrow>
          let new_row = \<lparr> Timestamp = stamp, Heart_Rate_BPM = hr, SpO2_Percent = spo2,
                          Temperature_Celsius = temp, Emotional_State = emotion_name,
                          Emotion_Score = emotion_score \<rparr>;
              existing_df = Vital_Signs wb;
              updated_df = concat_row existing_df new_row
          in Some (wb \<lparr> Vital_Signs := overlay updated_df (Vital_Signs wb) \<rparr>))"

definition emergency_call_row ::
  "string \<Rightarrow> int \<Rightarrow> int \<Rightarrow> real \<Rightarrow> string \<Rightarrow> bool \<Rightarrow> string \<Rightarrow> call_row" where
  "emergency_call_row alert_type hr spo2 temp emotion_name auto_triggered stamp =
     \<lparr> Call_Timestamp = stamp, Alert_Type = alert_type, Heart_Rate = hr, SpO2 = spo2,
       Temperature = temp, Emotion_State = emotion_name,
       Auto_Triggered = (if auto_triggered then ''YES'' else ''NO'') \<rparr>"

definition append_emergency_call ::
  "string \<Rightarrow> int \<Rightarrow> int \<Rightarrow> real \<Rightarrow> string \<Rightarrow> bool \<Rightarrow> string \<Rightarrow> workbook option \<Rightarrow> workbook option" where
  "append_emergency_call alert_type hr spo2 temp emotion_name auto_triggered stamp excel_file =
     (case excel_file of
        None \<Rightarrow> None
      | Some wb \<Rightarrow>
          let new_row = emergency_call_row alert_type hr spo2 temp emotion_name auto_triggered stamp;
              existing_df = Emergency_Calls wb;
              updated_df = concat_row existing_df new_row
          in Some (wb \<lparr> Emergency_Calls := overlay updated_df (Emergency_Calls wb) \<rparr>))"

definition append_fall_event :: "string \<Rightarrow> workbook option \<Rightarrow> workbook option" where
  "append_fall_event stamp excel_file =
     (case excel_file of
        None \<Rightarrow> None
      | Some wb \<Rightarrow>
          let existing_df = Fall_Events wb;
              updated_df = concat_row existing_df stamp
          in Some (wb \<lparr> Fall_Events := overlay updated_df (Fall_Events wb) \<rparr>))"

definition append_help_request :: "string \<Rightarrow> workbook option \<Rightarrow> workbook option" where
  "append_help_request stamp excel_file =
     (case excel_file of
        None \<Rightarrow> None
      | Some wb \<Rightarrow>
          let existing_df = Help_Requests wb;
              updated_df = concat_row existing_df stamp
          in Some (wb \<lparr> Help_Requests := overlay updated_df (Help_Requests wb) \<rparr>))"

subsection \<open>\<open>append_emergency_call\<close> as two steps of a thread\<close>

text \<open>
  Every dispatch runs in a thread of its own (lines 417-420 and 553-556), and the source takes
  no lock anywhere, so another thread can run between the \<open>pd.read_excel\<close> of line 198 and the
  write of lines 201-202. A thread inside \<open>append_emergency_call\<close> is before its read
  (holding the row it built), between read and write (holding also the frame it read), or
  has returned.
\<close>

datatype appender = Before_Read call_row | Before_Write call_row "call_row sheet" | Returned

fun appender_step :: "appender \<Rightarrow> workbook option \<Rightarrow> appender \<times> workbook option" where
  "appender_step (Before_Read new_row) excel_file =
     (case excel_file of
        None \<Rightarrow> (Returned, None)
      | Some wb \<Rightarrow> (Before_Write new_row (Emergency_Calls wb), Some wb))"
| "appender_step (Before_Write new_row existing_df) excel_file =
     (case excel_file of
        None \<Rightarrow> (Returned, None)
      | Some wb \<Rightarrow>
          (Returned,
           Some (wb \<lparr> Emergency_Calls :=
                        overlay (concat_row existing_df new_row) (Emergency_Calls wb) \<rparr>)))"
| "appender_step Returned excel_file = (Returned, excel_file)"

text \<open>
  A schedule names, step by step, the thread that runs next; a name that is no thread's
  leaves everything as it is.
\<close>

fun run_schedule :: "nat list \<Rightarrow> appender list \<times> workbook option \<Rightarrow> appender list \<times> workbook option" where
  "run_schedule [] cfg = cfg"
| "run_schedule (i # sched) (threads, excel_file) =
     (if i < length threads
      then (let (t', f') = appender_step (threads ! i) excel_file
            in run_schedule sched (threads[i := t'], f'))
      else run_schedule sched (threads, excel_file))"

text \<open>The schedule that runs the threads \<open>k, k+1, ..., k+n-1\<close> one after the other, each to its end.\<close>

definition serial_schedule :: "nat \<Rightarrow> nat \<Rightarrow> nat list" where
  "serial_schedule k n = concat (map (\<lambda>i. [i, i]) [k ..< k + n])"

subsection \<open>The process state\<close>

text \<open>
  What the functions below read and write, passed explicitly:
  \<^item> \<open>LAST_AUTO_CALL\<close>, the global of line 31 (\<open>None\<close>, or a reading of \<open>time.time()\<close>);
  \<^item> \<open>excel_file\<close>, the workbook file of the one \<open>VitalSignsMonitor\<close>;
  \<^item> \<open>call_counter\<close>, the number \<open>n\<close> in the text \<open>Total Calls: n\<close> of the counter label,
    which is the only form that label's text ever has (lines 454, 308, 559);
  \<^item> \<open>calls_create\<close>, the requests handed to \<open>client.calls.create\<close> so far, in order: the
    effect on the outside world.
  The other labels are only written, never read, and are left out.
\<close>

text \<open>
  The spoken reason of lines 262-275, one constructor per branch of the chain, with the value
  the branch puts into the sentence.
\<close>

datatype reason =
    Help_Reason string
  | Heart_Reason int
  | Fall_Reason
  | Spo2_Reason int
  | Temp_Reason real
  | General_Reason

record call_request =
  auto_prefix :: bool
  spoken_reason :: reason
  spoken_hr :: int
  spoken_spo2 :: int
  spoken_temp :: real

record system =
  LAST_AUTO_CALL :: "real option"
  excel_file :: "workbook option"
  call_counter :: int
  calls_create :: "call_request list"

text \<open>
  The dictionary \<open>sensor_data\<close>. Both places that build it (lines 406-412 and 544-550) give
  it all five keys, so the defaults of \<open>.get\<close> in lines 247-251 are never taken.
\<close>

record sensor_data =
  sd_hr :: int
  sd_spo2 :: int
  sd_temp :: real
  sd_fall :: bool
  sd_help :: bool

text \<open>The arguments a dispatch thread is started with (lines 417-420 and 553-556).\<close>

record thread_args =
  th_alert_type :: string
  th_sensor_data :: sensor_data
  th_auto_triggered :: bool

text \<open>
  What one run of \<open>trigger_emergency_call\<close> gets from outside: the two formatted readings
  of \<open>datetime.now()\<close> (in \<open>append_emergency_call\<close>, and in \<open>append_help_request\<close> or
  \<open>append_fall_event\<close>), whether \<open>client.calls.create\<close> returns a call (with its sid) or
  raises (with the message), and the reading of \<open>time.time()\<close> in line 312.
\<close>

datatype call_outcome = Call_Initiated string | Call_Failed string

record dispatch_env =
  log_stamp :: string
  event_stamp :: string
  call_result :: call_outcome
  call_clock :: real

subsection \<open>\<open>trigger_emergency_call\<close> (lines 241-319)\<close>

text \<open>
  The request is made in every run; the counter and \<open>LAST_AUTO_CALL\<close> are written after
  \<open>client.calls.create\<close> inside the same \<open>try\<close> (lines 299-312), so the \<open>except\<close>
  branch of lines 314-316 skips both. Building the client object in line 244 places no call
  and is taken to succeed. Reading the number back from the counter label (line 307) cannot
  fail on a text of the form \<open>Total Calls: n\<close>.
\<close>

definition trigger_emergency_call ::
  "string \<Rightarrow> sensor_data \<Rightarrow> bool \<Rightarrow> dispatch_env \<Rightarrow> system \<Rightarrow> system" where
  "trigger_emergency_call alert_type sensor_data auto_triggered env s =
     (let hr = sd_hr sensor_data;
          spo2 = sd_spo2 sensor_data;
          temp = sd_temp sensor_data;
          fall = sd_fall sensor_data;
          help_btn = sd_help sensor_data;
          emotion_state = analyze hr spo2 temp fall help_btn;
          f1 = append_emergency_call alert_type hr spo2 temp (emotion emotion_state)
                 auto_triggered (log_stamp env) (excel_file s);
          (reason, f2) =
            (if alert_type = ''HELP''
               then (Help_Reason (emotion emotion_state), append_help_request (event_stamp env) f1)
             else if alert_type = ''HEART'' then (Heart_Reason hr, f1)
             else if alert_type = ''FALL''
               then (Fall_Reason, append_fall_event (event_stamp env) f1)
             else if alert_type = ''SPO2'' then (Spo2_Reason spo2, f1)
             else if alert_type = ''TEMP'' then (Temp_Reason temp, f1)
             else (General_Reason, f1));
          request = \<lparr> auto_prefix = auto_triggered, spoken_reason = reason,
                      spoken_hr = hr, spoken_spo2 = spo2, spoken_temp = temp \<rparr>;
          s1 = s \<lparr> excel_file := f2, calls_create := calls_create s @ [request] \<rparr>
      in case call_result env of
           Call_Failed e \<Rightarrow> s1
         | Call_Initiated sid \<Rightarrow>
             (let s2 = s1 \<lparr> call_counter := call_counter s1 + 1 \<rparr>
              in if auto_triggered then s2 \<lparr> LAST_AUTO_CALL := Some (call_clock env) \<rparr>
                 else s2))"

subsection \<open>One round of the loop of \<open>simulate_sensor_readings\<close> (lines 335-422)\<close>

text \<open>
  Lines 338-354 draw the reading from \<open>random\<close>; the drawn \<open>hr\<close>, \<open>spo2\<close>, \<open>temp\<close> and
  \<open>should_spike\<close> are parameters here, as are the time stamp of the appended row and
  \<open>current_time\<close>, the reading of \<open>time.time()\<close> in line 393. The result is the new state
  and the arguments of the thread started in lines 417-420, if one is started.
\<close>

definition simulate_iteration ::
  "int \<Rightarrow> int \<Rightarrow> real \<Rightarrow> bool \<Rightarrow> string \<Rightarrow> real \<Rightarrow> system \<Rightarrow> system \<times> thread_args option" where
  "simulate_iteration hr spo2 temp should_spike stamp current_time s =
     (let emotion_state = analyze hr spo2 temp False False;
          s1 = s \<lparr> excel_file :=
                     append_vital_reading hr spo2 temp (emotion emotion_state)
                       (score emotion_state) stamp (excel_file s) \<rparr>
      in if should_spike \<or> score emotion_state \<ge> 25 then
           (if (case LAST_AUTO_CALL s1 of
                  None \<Rightarrow> True
                | Some last_call \<Rightarrow> current_time - last_call \<ge> AUTO_CALL_COOLDOWN)
            then
              (let alert_type =
                     (if hr > HEART_RATE_CRITICAL then ''HEART''
                      else if spo2 < SPO2_CRITICAL then ''SPO2''
                      else if temp > TEMP_CRITICAL_HIGH then ''TEMP''
                      else ''GENERAL'');
                   sensor_data = \<lparr> sd_hr = hr, sd_spo2 = spo2, sd_temp = temp,
                                   sd_fall = False, sd_help = False \<rparr>
               in (s1, Some \<lparr> th_alert_type = alert_type, th_sensor_data = sensor_data,
                               th_auto_triggered = True \<rparr>))
            else (s1, None))
         else (s1, None))"

subsection \<open>The two button handlers (lines 543-561)\<close>

definition trigger_alert :: "string \<Rightarrow> int \<Rightarrow> int \<Rightarrow> real \<Rightarrow> bool \<Rightarrow> bool \<Rightarrow> thread_args" where
  "trigger_alert alert_type hr spo2 temp fall help_btn =
     (let sensor_data = \<lparr> sd_hr = hr, sd_spo2 = spo2, sd_temp = temp,
                          sd_fall = fall, sd_help = help_btn \<rparr>
      in \<lparr> th_alert_type = alert_type, th_sensor_data = sensor_data,
           th_auto_triggered = False \<rparr>)"

definition reset_counter :: "system \<Rightarrow> system" where
  "reset_counter s = s \<lparr> call_counter := 0 \<rparr>"

text \<open>A started thread runs \<open>trigger_emergency_call\<close> on its arguments.\<close>

definition run_thread :: "thread_args \<Rightarrow> dispatch_env \<Rightarrow> system \<Rightarrow> system" where
  "run_thread args env s =
     trigger_emergency_call (th_alert_type args) (th_sensor_data args) (th_auto_triggered args) env s"

text \<open>
  The state at the end of \<open>RafeeqAdvancedSystem.__init__\<close>, for a path that did not exist:
  the global of line 31, the file made by \<open>init_excel_file\<close>, the label of line 454.
\<close>

definition initial_system :: system where
  "initial_system =
     \<lparr> LAST_AUTO_CALL = None, excel_file = init_excel_file None, call_counter = 0,
       calls_create = [] \<rparr>"

subsection \<open>The threads of the process, step by step\<close>

text \<open>
  The sensor loop is one thread, every dispatch is a thread of its own (lines 417-420 and
  553-556), the buttons run in the main thread, and the source takes no lock. Between two
  accesses of a thread to the workbook file, the counter label or \<open>LAST_AUTO_CALL\<close>
  another thread can run. A thread is modelled by the place it has reached, with the local
  values it holds there.

  An \<open>append_*\<close> method has three accesses to the file: \<open>pd.read_excel\<close> reads the
  sheet; opening \<open>pd.ExcelWriter\<close> in mode \<open>a\<close> loads the whole workbook, into which
  \<open>to_excel\<close> then writes the frame; leaving the \<open>with\<close> block saves that whole workbook
  over the file. Each \<open>*_update\<close> below gives the workbook that is saved, from the
  workbook found by the read and the workbook loaded by the writer. The section on
  \<open>append_emergency_call\<close> above takes the load and the save as one step, which is enough
  to lose a record of the same sheet; here they are two steps, since a thread that saves the
  workbook it loaded also undoes what other threads wrote to other sheets in between.
\<close>

definition vital_reading_update ::
  "int \<Rightarrow> int \<Rightarrow> real \<Rightarrow> string \<Rightarrow> int \<Rightarrow> string \<Rightarrow> workbook \<Rightarrow> workbook \<Rightarrow> workbook" where
  "vital_reading_update hr spo2 temp emotion_name emotion_score stamp at_read book =
     (let new_row = \<lparr> Timestamp = stamp, Heart_Rate_BPM = hr, SpO2_Percent = spo2,
                      Temperature_Celsius = temp, Emotional_State = emotion_name,
                      Emotion_Score = emotion_score \<rparr>;
          existing_df = Vital_Signs at_read;
          updated_df = concat_row existing_df new_row
      in book \<lparr> Vital_Signs := overlay updated_df (Vital_Signs book) \<rparr>)"

definition emergency_call_update ::
  "string \<Rightarrow> int \<Rightarrow> int \<Rightarrow> real \<Rightarrow> string \<Rightarrow> bool \<Rightarrow> string \<Rightarrow> workbook \<Rightarrow> workbook \<Rightarrow> workbook" where
  "emergency_call_update alert_type hr spo2 temp emotion_name auto_triggered stamp at_read book =
     (let new_row = emergency_call_row alert_type hr spo2 temp emotion_name auto_triggered stamp;
          existing_df = Emergency_Calls at_read;
          updated_df = concat_row existing_df new_row
      in book \<lparr> Emergency_Calls := overlay updated_df (Emergency_Calls book) \<rparr>)"

definition fall_event_update :: "string \<Rightarrow> workbook \<Rightarrow> workbook \<Rightarrow> workbook" where
  "fall_event_update stamp at_read book =
     (let existing_df = Fall_Events at_read;
          updated_df = concat_row existing_df stamp
      in book \<lparr> Fall_Events := overlay updated_df (Fall_Events book) \<rparr>)"

definition help_request_update :: "string \<Rightarrow> workbook \<Rightarrow> workbook \<Rightarrow> workbook" where
  "help_request_update stamp at_read book =
     (let existing_df = Help_Requests at_read;
          updated_df = concat_row existing_df stamp
      in book \<lparr> Help_Requests := overlay updated_df (Help_Requests book) \<rparr>)"

text \<open>
  The places of a thread.
  \<^item> \<open>Append_Read\<close>, \<open>Append_Open\<close>, \<open>Append_Close\<close>: inside an \<open>append_*\<close> method, before
    the read, before the writer is opened, and before the \<open>with\<close> block is left; the last
    argument is where the thread goes on after the method.
  \<^item> \<open>Place_Call\<close>: before \<open>client.calls.create\<close> (line 299), with the request, what the
    call will do, \<open>auto_triggered\<close> and the clock reading of line 312.
  \<^item> \<open>Label_Read\<close>, \<open>Label_Write\<close>: before line 307 and before line 308, the latter with
    the number read.
  \<^item> \<open>Stamp_Cooldown\<close>: before line 312.
  \<^item> \<open>Cooldown_Check\<close>: the sensor loop before line 391, with the reading of its round.
  \<^item> \<open>Label_Reset\<close>: \<open>reset_counter\<close> before line 559.
  \<^item> \<open>Ended\<close>: the thread (or the round of the loop) is over; a round that started a
    dispatch ends with the arguments of that dispatch.
\<close>

datatype thread =
    Append_Read "workbook \<Rightarrow> workbook \<Rightarrow> workbook" thread
  | Append_Open "workbook \<Rightarrow> workbook" thread
  | Append_Close workbook thread
  | Place_Call call_request call_outcome bool real
  | Label_Read bool real
  | Label_Write int bool real
  | Stamp_Cooldown real
  | Cooldown_Check int int real bool string real
  | Label_Reset
  | Ended "thread_args option"

text \<open>
  One step of a thread. On a missing file both \<open>pd.read_excel\<close> and
  \<open>pd.ExcelWriter(mode='a')\<close> raise; the \<open>except\<close> branch of the method prints, and the
  thread goes on after the method. The cooldown check is the one \<open>simulate_iteration\<close>
  makes, on the state found at that moment.
\<close>

fun thread_step :: "thread \<Rightarrow> system \<Rightarrow> thread \<times> system" where
  "thread_step (Append_Read update after) s =
     (case excel_file s of
        None \<Rightarrow> (after, s)
      | Some wb \<Rightarrow> (Append_Open (update wb) after, s))"
| "thread_step (Append_Open write_into after) s =
     (case excel_file s of
        None \<Rightarrow> (after, s)
      | Some book \<Rightarrow> (Append_Close (write_into book) after, s))"
| "thread_step (Append_Close book after) s = (after, s \<lparr> excel_file := Some book \<rparr>)"
| "thread_step (Place_Call request outcome auto_triggered clock) s =
     (let s1 = s \<lparr> calls_create := calls_create s @ [request] \<rparr>
      in case outcome of
           Call_Failed e \<Rightarrow> (Ended None, s1)
         | Call_Initiated sid \<Rightarrow> (Label_Read auto_triggered clock, s1))"
| "thread_step (Label_Read auto_triggered clock) s =
     (Label_Write (call_counter s) auto_triggered clock, s)"
| "thread_step (Label_Write current auto_triggered clock) s =
     (if auto_triggered then Stamp_Cooldown clock else Ended None,
      s \<lparr> call_counter := current + 1 \<rparr>)"
| "thread_step (Stamp_Cooldown clock) s = (Ended None, s \<lparr> LAST_AUTO_CALL := Some clock \<rparr>)"
| "thread_step (Cooldown_Check hr spo2 temp should_spike stamp current_time) s =
     (Ended (snd (simulate_iteration hr spo2 temp should_spike stamp current_time s)), s)"
| "thread_step Label_Reset s = (Ended None, s \<lparr> call_counter := 0 \<rparr>)"
| "thread_step (Ended started) s = (Ended started, s)"

text \<open>
  A dispatch thread at its start (lines 241-319): \<open>append_emergency_call\<close>, then
  \<open>append_help_request\<close> or \<open>append_fall_event\<close> for the alert types HELP and FALL, then
  the call.
\<close>

definition dispatch_thread :: "string \<Rightarrow> sensor_data \<Rightarrow> bool \<Rightarrow> dispatch_env \<Rightarrow> thread" where
  "dispatch_thread alert_type sensor_data auto_triggered env =
     (let hr = sd_hr sensor_data;
          spo2 = sd_spo2 sensor_data;
          temp = sd_temp sensor_data;
          fall = sd_fall sensor_data;
          help_btn = sd_help sensor_data;
          emotion_state = analyze hr spo2 temp fall help_btn;
          reason =
            (if alert_type = ''HELP'' then Help_Reason (emotion emotion_state)
             else if alert_type = ''HEART'' then Heart_Reason hr
             else if alert_type = ''FALL'' then Fall_Reason
             else if alert_type = ''SPO2'' then Spo2_Reason spo2
             else if alert_type = ''TEMP'' then Temp_Reason temp
             else General_Reason);
          request = \<lparr> auto_prefix = auto_triggered, spoken_reason = reason,
                      spoken_hr = hr, spoken_spo2 = spo2, spoken_temp = temp \<rparr>;
          call = Place_Call request (call_result env) auto_triggered (call_clock env);
          after_log =
            (if alert_type = ''HELP''
               then Append_Read (help_request_update (event_stamp env)) call
             else if alert_type = ''FALL''
               then Append_Read (fall_event_update (event_stamp env)) call
             else call)
      in Append_Read
           (emergency_call_update alert_type hr spo2 temp (emotion emotion_state)
              auto_triggered (log_stamp env))
           after_log)"

text \<open>A round of the sensor loop at line 356: \<open>append_vital_reading\<close>, then the check.\<close>

definition sensor_thread :: "int \<Rightarrow> int \<Rightarrow> real \<Rightarrow> bool \<Rightarrow> string \<Rightarrow> real \<Rightarrow> thread" where
  "sensor_thread hr spo2 temp should_spike stamp current_time =
     (let emotion_state = analyze hr spo2 temp False False
      in Append_Read
           (vital_reading_update hr spo2 temp (emotion emotion_state) (score emotion_state) stamp)
           (Cooldown_Check hr spo2 temp should_spike stamp current_time))"

text \<open>A number of steps after which a thread has ended, whatever the other threads do.\<close>

fun steps_bound :: "thread \<Rightarrow> nat" where
  "steps_bound (Append_Read update after) = Suc (Suc (Suc (steps_bound after)))"
| "steps_bound (Append_Open write_into after) = Suc (Suc (steps_bound after))"
| "steps_bound (Append_Close book after) = Suc (steps_bound after)"
| "steps_bound (Place_Call request outcome auto_triggered clock) = Suc (Suc (Suc (Suc 0)))"
| "steps_bound (Label_Read auto_triggered clock) = Suc (Suc (Suc 0))"
| "steps_bound (Label_Write current auto_triggered clock) = Suc (Suc 0)"
| "steps_bound (Stamp_Cooldown clock) = Suc 0"
| "steps_bound (Cooldown_Check hr spo2 temp should_spike stamp current_time) = Suc 0"
| "steps_bound Label_Reset = Suc 0"
| "steps_bound (Ended started) = 0"

text \<open>A thread taking \<open>n\<close> steps with no other thread in between.\<close>

fun run_steps :: "nat \<Rightarrow> thread \<times> system \<Rightarrow> thread \<times> system" where
  "run_steps 0 cfg = cfg"
| "run_steps (Suc n) (t, s) = run_steps n (thread_step t s)"

text \<open>
  The threads of the process under a schedule, which names, step by step, the thread that
  runs next; a name that is no thread's leaves everything as it is.
\<close>

fun run_pool :: "nat list \<Rightarrow> thread list \<times> system \<Rightarrow> thread list \<times> system" where
  "run_pool [] cfg = cfg"
| "run_pool (i # sched) (threads, s) =
     (if i < length threads
      then (let (t', s') = thread_step (threads ! i) s
            in run_pool sched (threads[i := t'], s'))
      else run_pool sched (threads, s))"

text \<open>
  The schedule that runs the threads one after the other, each from its first step to its
  end before the next one starts; \<open>k\<close> is the name of the first of them.
\<close>

fun serial_from :: "nat \<Rightarrow> thread list \<Rightarrow> nat list" where
  "serial_from k [] = []"
| "serial_from k (t # ts) = replicate (steps_bound t) k @ serial_from (Suc k) ts"

definition serial_run :: "thread list \<Rightarrow> nat list" where
  "serial_run threads = serial_from 0 threads"

subsection \<open>What runs in the process\<close>

text \<open>
  The threads of a run are described by events: a round of the sensor loop with its reading,
  time stamp and clock reading; a dispatch with its arguments (started by the loop or by a
  button) and what it gets from outside; a press of the reset button. The thread that a round
  starts is an event of its own. A list of events may hold dispatches that nothing started,
  so a statement about all lists covers more than the process can do.
\<close>

datatype event =
    Sensor_Round int int real bool string real
  | Dispatch thread_args dispatch_env
  | Reset_Button

fun thread_of :: "event \<Rightarrow> thread" where
  "thread_of (Sensor_Round hr spo2 temp should_spike stamp current_time) =
     sensor_thread hr spo2 temp should_spike stamp current_time"
| "thread_of (Dispatch args env) =
     dispatch_thread (th_alert_type args) (th_sensor_data args) (th_auto_triggered args) env"
| "thread_of Reset_Button = Label_Reset"

text \<open>
  What the functions of the sections above compute for an event: the effect of its thread
  when no other thread takes a step between its first step and its last
  (lemma \<open>thread_of_uninterrupted\<close> below).
\<close>

fun uninterrupted :: "event \<Rightarrow> system \<Rightarrow> system" where
  "uninterrupted (Sensor_Round hr spo2 temp should_spike stamp current_time) s =
     fst (simulate_iteration hr spo2 temp should_spike stamp current_time s)"
| "uninterrupted (Dispatch args env) s = run_thread args env s"
| "uninterrupted Reset_Button s = reset_counter s"

text \<open>The row that a round of the sensor loop appends to sheet Vital_Signs.\<close>

fun sensor_rows :: "event list \<Rightarrow> vital_row list" where
  "sensor_rows [] = []"
| "sensor_rows (Sensor_Round hr spo2 temp should_spike stamp current_time # es) =
     \<lparr> Timestamp = stamp, Heart_Rate_BPM = hr, SpO2_Percent = spo2,
       Temperature_Celsius = temp,
       Emotional_State = emotion (analyze hr spo2 temp False False),
       Emotion_Score = score (analyze hr spo2 temp False False) \<rparr> # sensor_rows es"
| "sensor_rows (e # es) = sensor_rows es"

text \<open>The number of dispatches in a run whose \<open>client.calls.create\<close> returned a call.\<close>

fun initiated_calls :: "event list \<Rightarrow> int" where
  "initiated_calls [] = 0"
| "initiated_calls (Dispatch args env # es) =
     (case call_result env of
        Call_Initiated sid \<Rightarrow> 1 + initiated_calls es
      | Call_Failed e \<Rightarrow> initiated_calls es)"
| "initiated_calls (e # es) = initiated_calls es"

subsection \<open>The rule table of the specification (section 4.1), for comparison\<close>

text \<open>
  The seven rows of the scoring table as the specification words them: the condition at the
  given input, the points and the factor tag.
\<close>

definition spec_rules :: "int \<Rightarrow> int \<Rightarrow> real \<Rightarrow> bool \<Rightarrow> bool \<Rightarrow> (bool \<times> int \<times> string) list" where
  "spec_rules heartRate spo2 temperature fallDetected helpPressed =
     [ (heartRate > 130, 30, ''elevated_hr''),
       (110 < heartRate \<and> heartRate \<le> 130, 15, ''raised_hr''),
       (spo2 < 92, 25, ''low_oxygen''),
       (92 \<le> spo2 \<and> spo2 < 95, 10, ''reduced_oxygen''),
       (temperature > 38 \<or> temperature < 36, 15, ''temp_abnormal''),
       (fallDetected, 40, ''fall_trauma''),
       (helpPressed, 35, ''distress_signal'') ]"

definition matching_rules :: "(bool \<times> int \<times> string) list \<Rightarrow> (int \<times> string) list" where
  "matching_rules rules = map snd (filter fst rules)"

text \<open>The classification as the specification words it, thresholds checked descending.\<close>

definition spec_emotion :: "int \<Rightarrow> string" where
  "spec_emotion sc =
     (if sc \<ge> 60 then ''CRITICAL DISTRESS''
      else if sc \<ge> 40 then ''HIGH ANXIETY''
      else if sc \<ge> 25 then ''MODERATE STRESS''
      else if sc \<ge> 10 then ''MILD DISCOMFORT''
      else ''STABLE'')"

section \<open>Properties of the scorer\<close>

lemma analyze_score:
  "score (analyze hr spo2 temp fall help_btn) =
     sum_list (map fst (matching_rules (spec_rules hr spo2 temp fall help_btn)))"
  by (simp add: analyze_def spec_rules_def matching_rules_def)

lemma analyze_factors:
  "factors (analyze hr spo2 temp fall help_btn) =
     map snd (matching_rules (spec_rules hr spo2 temp fall help_btn))"
  by (simp add: analyze_def spec_rules_def matching_rules_def)

lemma analyze_emotion_score:
  "emotion (analyze hr spo2 temp fall help_btn) =
     fst (emotion_classification (score (analyze hr spo2 temp fall help_btn)))"
  by (simp add: analyze_def split_def Let_def)

lemma emotion_classification_spec:
  "fst (emotion_classification sc) = spec_emotion sc"
  by (simp add: emotion_classification_def spec_emotion_def)

lemma analyze_emotion:
  "emotion (analyze hr spo2 temp fall help_btn) =
     spec_emotion (score (analyze hr spo2 temp fall help_btn))"
  by (simp only: analyze_emotion_score emotion_classification_spec)

text \<open>
  C1. For every input, the score returned by \<open>analyze\<close> is the sum of the points of the
  matching rules of the table, the factors are exactly the tags of the matching rules, and
  the emotion is the one the descending inclusive thresholds 60, 40, 25, 10 give for that
  score; the classification block maps 60 to CRITICAL DISTRESS and 59 to HIGH ANXIETY.
\<close>

theorem analyze_sum_factors_thresholds:
  "score (analyze hr spo2 temp fall help_btn) =
     sum_list (map fst (matching_rules (spec_rules hr spo2 temp fall help_btn)))
   \<and> set (factors (analyze hr spo2 temp fall help_btn)) =
     set (map snd (matching_rules (spec_rules hr spo2 temp fall help_btn)))
   \<and> emotion (analyze hr spo2 temp fall help_btn) =
     spec_emotion (score (analyze hr spo2 temp fall help_btn))
   \<and> fst (emotion_classification 60) = ''CRITICAL DISTRESS''
   \<and> fst (emotion_classification 59) = ''HIGH ANXIETY''"
proof -
  have "fst (emotion_classification 60) = ''CRITICAL DISTRESS''"
    by (simp add: emotion_classification_def)
  moreover have "fst (emotion_classification 59) = ''HIGH ANXIETY''"
    by (simp add: emotion_classification_def)
  ultimately show ?thesis
    using analyze_score [of hr spo2 temp fall help_btn]
      analyze_factors [of hr spo2 temp fall help_btn]
      analyze_emotion [of hr spo2 temp fall help_btn]
    by simp
qed

text \<open>Facts about the score and the factor list, read off the rule table.\<close>

lemma spec_emotion_stable: "spec_emotion sc = ''STABLE'' \<longleftrightarrow> sc < 10"
  by (simp add: spec_emotion_def)

lemma analyze_score_zero_factors:
  "score (analyze hr spo2 temp fall help_btn) = 0 \<longleftrightarrow>
     factors (analyze hr spo2 temp fall help_btn) = []"
  by (simp add: analyze_score analyze_factors spec_rules_def matching_rules_def)

lemma analyze_score_small_zero:
  "score (analyze hr spo2 temp fall help_btn) < 10 \<longleftrightarrow>
     score (analyze hr spo2 temp fall help_btn) = 0"
  by (simp add: analyze_score spec_rules_def matching_rules_def)

lemma analyze_score_upper: "score (analyze hr spo2 temp fall help_btn) \<le> 145"
  by (simp add: analyze_score spec_rules_def matching_rules_def)

lemma analyze_score_lower: "0 \<le> score (analyze hr spo2 temp fall help_btn)"
  by (simp add: analyze_score spec_rules_def matching_rules_def)

text \<open>
  Every score is a multiple of 5, so no input makes \<open>analyze\<close> itself reach the score 59:
  the boundary at 59 is a fact about the classification block only.
\<close>

lemma analyze_score_multiple_of_5: "score (analyze hr spo2 temp fall help_btn) mod 5 = 0"
  by (simp add: analyze_score spec_rules_def matching_rules_def)

lemma analyze_hr_tags_exclusive:
  "\<not> (''elevated_hr'' \<in> set (factors (analyze hr spo2 temp fall help_btn))
      \<and> ''raised_hr'' \<in> set (factors (analyze hr spo2 temp fall help_btn)))"
  by (simp add: analyze_factors spec_rules_def matching_rules_def)

lemma analyze_oxygen_tags_exclusive:
  "\<not> (''low_oxygen'' \<in> set (factors (analyze hr spo2 temp fall help_btn))
      \<and> ''reduced_oxygen'' \<in> set (factors (analyze hr spo2 temp fall help_btn)))"
  by (simp add: analyze_factors spec_rules_def matching_rules_def)

text \<open>
  C10. For every input, \<open>analyze\<close> returns the emotion STABLE exactly when its factor list is
  empty, which is exactly when the score is 0; the factor list never holds both heart-rate
  tags, never both oxygen tags, and the score is at most 145.
\<close>

theorem analyze_stable_iff_no_factors:
  "(emotion (analyze hr spo2 temp fall help_btn) = ''STABLE'' \<longleftrightarrow>
      factors (analyze hr spo2 temp fall help_btn) = [])
   \<and> (factors (analyze hr spo2 temp fall help_btn) = [] \<longleftrightarrow>
      score (analyze hr spo2 temp fall help_btn) = 0)
   \<and> \<not> (''elevated_hr'' \<in> set (factors (analyze hr spo2 temp fall help_btn))
        \<and> ''raised_hr'' \<in> set (factors (analyze hr spo2 temp fall help_btn)))
   \<and> \<not> (''low_oxygen'' \<in> set (factors (analyze hr spo2 temp fall help_btn))
        \<and> ''reduced_oxygen'' \<in> set (factors (analyze hr spo2 temp fall help_btn)))
   \<and> score (analyze hr spo2 temp fall help_btn) \<le> 145"
proof -
  let ?r = "analyze hr spo2 temp fall help_btn"
  have "emotion ?r = ''STABLE'' \<longleftrightarrow> score ?r < 10"
    by (simp only: analyze_emotion spec_emotion_stable)
  also have "\<dots> \<longleftrightarrow> score ?r = 0"
    by (rule analyze_score_small_zero)
  also have "\<dots> \<longleftrightarrow> factors ?r = []"
    by (rule analyze_score_zero_factors)
  finally have stable: "emotion ?r = ''STABLE'' \<longleftrightarrow> factors ?r = []" .
  have empty: "factors ?r = [] \<longleftrightarrow> score ?r = 0"
    by (rule analyze_score_zero_factors [symmetric])
  from stable empty analyze_hr_tags_exclusive [of hr spo2 temp fall help_btn]
    analyze_oxygen_tags_exclusive [of hr spo2 temp fall help_btn]
    analyze_score_upper [of hr spo2 temp fall help_btn]
  show ?thesis by blast
qed

section \<open>Properties of the dispatcher and of the sensor loop\<close>

lemma trigger_LAST_AUTO_CALL:
  "LAST_AUTO_CALL (trigger_emergency_call alert_type sensor_data auto_triggered env s) =
     (case call_result env of
        Call_Initiated sid \<Rightarrow> if auto_triggered then Some (call_clock env) else LAST_AUTO_CALL s
      | Call_Failed e \<Rightarrow> LAST_AUTO_CALL s)"
  by (simp add: trigger_emergency_call_def Let_def split_def split: call_outcome.split)

lemma trigger_call_counter:
  "call_counter (trigger_emergency_call alert_type sensor_data auto_triggered env s) =
     (case call_result env of
        Call_Initiated sid \<Rightarrow> call_counter s + 1
      | Call_Failed e \<Rightarrow> call_counter s)"
  by (simp add: trigger_emergency_call_def Let_def split_def split: call_outcome.split)

lemma trigger_calls_create:
  "\<exists>r. calls_create (trigger_emergency_call alert_type sensor_data auto_triggered env s) =
     calls_create s @
       [\<lparr> auto_prefix = auto_triggered, spoken_reason = r, spoken_hr = sd_hr sensor_data,
           spoken_spo2 = sd_spo2 sensor_data, spoken_temp = sd_temp sensor_data \<rparr>]"
  by (simp add: trigger_emergency_call_def Let_def split_def split: call_outcome.split)

lemma simulate_LAST_AUTO_CALL:
  "LAST_AUTO_CALL (fst (simulate_iteration hr spo2 temp should_spike stamp current_time s)) =
     LAST_AUTO_CALL s"
  by (simp add: simulate_iteration_def Let_def)

lemma simulate_call_counter:
  "call_counter (fst (simulate_iteration hr spo2 temp should_spike stamp current_time s)) =
     call_counter s"
  by (simp add: simulate_iteration_def Let_def)

lemma simulate_spawn:
  "snd (simulate_iteration hr spo2 temp should_spike stamp current_time s) =
     (if (should_spike \<or> score (analyze hr spo2 temp False False) \<ge> 25)
         \<and> (case LAST_AUTO_CALL s of None \<Rightarrow> True | Some l \<Rightarrow> current_time - l \<ge> 30)
      then Some \<lparr> th_alert_type =
                    (if hr > 140 then ''HEART''
                     else if spo2 < 90 then ''SPO2''
                     else if temp > 38.5 then ''TEMP''
                     else ''GENERAL''),
                  th_sensor_data = \<lparr> sd_hr = hr, sd_spo2 = spo2, sd_temp = temp,
                                     sd_fall = False, sd_help = False \<rparr>,
                  th_auto_triggered = True \<rparr>
      else None)"
  by (simp add: simulate_iteration_def Let_def HEART_RATE_CRITICAL_def SPO2_CRITICAL_def
      TEMP_CRITICAL_HIGH_def AUTO_CALL_COOLDOWN_def split: option.split)

lemma initial_system_LAST_AUTO_CALL: "LAST_AUTO_CALL initial_system = None"
  by (simp add: initial_system_def)

lemma score_150_97: "score (analyze 150 97 36.8 False False) = 30"
  by (simp add: analyze_score spec_rules_def matching_rules_def)

text \<open>
  A round of the loop at clock reading 1000 starts a dispatch for a spike reading; the call
  then fails, and \<open>LAST_AUTO_CALL\<close> is still unset after the dispatch: neither the loop nor
  the failed dispatch stamps it.
\<close>

theorem failed_call_leaves_cooldown_unset:
  "snd (simulate_iteration 150 97 36.8 True ''2026-01-01 10:00:00'' 1000 initial_system) =
     Some \<lparr> th_alert_type = ''HEART'',
            th_sensor_data = \<lparr> sd_hr = 150, sd_spo2 = 97, sd_temp = 36.8,
                               sd_fall = False, sd_help = False \<rparr>,
            th_auto_triggered = True \<rparr>
   \<and> LAST_AUTO_CALL
       (run_thread
          \<lparr> th_alert_type = ''HEART'',
            th_sensor_data = \<lparr> sd_hr = 150, sd_spo2 = 97, sd_temp = 36.8,
                               sd_fall = False, sd_help = False \<rparr>,
            th_auto_triggered = True \<rparr>
          \<lparr> log_stamp = ''2026-01-01 10:00:00'', event_stamp = ''2026-01-01 10:00:00'',
            call_result = Call_Failed ''HTTPSConnectionPool: Max retries exceeded'',
            call_clock = 1001 \<rparr>
          (fst (simulate_iteration 150 97 36.8 True ''2026-01-01 10:00:00'' 1000 initial_system)))
     = None"
  by (simp add: simulate_spawn run_thread_def trigger_LAST_AUTO_CALL simulate_LAST_AUTO_CALL
      initial_system_LAST_AUTO_CALL)

text \<open>
  C2, as the code has it. An auto-triggered dispatch sets \<open>LAST_AUTO_CALL\<close> to the clock reading
  taken after \<open>client.calls.create\<close> has returned a call, and leaves it as it was when the
  call fails; the round of the sensor loop that starts the dispatch never writes it.
\<close>

theorem cooldown_stamped_only_after_successful_call:
  "LAST_AUTO_CALL (trigger_emergency_call alert_type sensor_data True env s) =
     (case call_result env of
        Call_Initiated sid \<Rightarrow> Some (call_clock env)
      | Call_Failed e \<Rightarrow> LAST_AUTO_CALL s)
   \<and> LAST_AUTO_CALL (fst (simulate_iteration hr spo2 temp should_spike stamp current_time s)) =
     LAST_AUTO_CALL s"
  by (simp add: trigger_LAST_AUTO_CALL simulate_LAST_AUTO_CALL)

text \<open>
  C5. A manual trigger starts a dispatch whatever the state is (\<open>trigger_alert\<close> reads
  neither the score nor \<open>LAST_AUTO_CALL\<close>); the dispatch is not auto-triggered, hands
  one request with the given vitals to \<open>client.calls.create\<close>, and leaves
  \<open>LAST_AUTO_CALL\<close> unchanged, whether the call succeeds or fails.
\<close>

theorem manual_trigger_always_dispatches_keeps_cooldown:
  "th_auto_triggered (trigger_alert alert_type hr spo2 temp fall help_btn) = False
   \<and> (\<exists>r. calls_create (run_thread (trigger_alert alert_type hr spo2 temp fall help_btn) env s) =
         calls_create s @
           [\<lparr> auto_prefix = False, spoken_reason = r, spoken_hr = hr,
               spoken_spo2 = spo2, spoken_temp = temp \<rparr>])
   \<and> LAST_AUTO_CALL (run_thread (trigger_alert alert_type hr spo2 temp fall help_btn) env s) =
       LAST_AUTO_CALL s"
proof -
  let ?args = "trigger_alert alert_type hr spo2 temp fall help_btn"
  have manual: "th_auto_triggered ?args = False"
    by (simp add: trigger_alert_def)
  have data: "sd_hr (th_sensor_data ?args) = hr" "sd_spo2 (th_sensor_data ?args) = spo2"
    "sd_temp (th_sensor_data ?args) = temp"
    by (simp_all add: trigger_alert_def)
  have "LAST_AUTO_CALL (run_thread ?args env s) = LAST_AUTO_CALL s"
    by (simp add: run_thread_def trigger_LAST_AUTO_CALL manual split: call_outcome.split)
  moreover have "\<exists>r. calls_create (run_thread ?args env s) =
         calls_create s @
           [\<lparr> auto_prefix = False, spoken_reason = r, spoken_hr = hr,
               spoken_spo2 = spo2, spoken_temp = temp \<rparr>]"
    using trigger_calls_create [of "th_alert_type ?args" "th_sensor_data ?args" False env s]
    by (simp add: run_thread_def manual data)
  ultimately show ?thesis using manual by simp
qed


lemma initiated_calls_Cons: "initiated_calls (e # es) = initiated_calls [e] + initiated_calls es"
  by (cases e) (simp_all split: call_outcome.split)

text \<open>
  A manual dispatch whose call fails: one request was handed to \<open>client.calls.create\<close>,
  and the counter is still 0.
\<close>

theorem failed_call_not_counted:
  "calls_create
     (run_thread (trigger_alert ''TEMP'' 98 96 39.2 False False)
        \<lparr> log_stamp = ''2026-01-01 10:00:00'', event_stamp = ''2026-01-01 10:00:00'',
          call_result = Call_Failed ''HTTPSConnectionPool: Max retries exceeded'',
          call_clock = 1001 \<rparr>
        initial_system) =
     [\<lparr> auto_prefix = False, spoken_reason = Temp_Reason 39.2, spoken_hr = 98,
        spoken_spo2 = 96, spoken_temp = 39.2 \<rparr>]
   \<and> call_counter
     (run_thread (trigger_alert ''TEMP'' 98 96 39.2 False False)
        \<lparr> log_stamp = ''2026-01-01 10:00:00'', event_stamp = ''2026-01-01 10:00:00'',
          call_result = Call_Failed ''HTTPSConnectionPool: Max retries exceeded'',
          call_clock = 1001 \<rparr>
        initial_system) = 0"
  by (simp add: run_thread_def trigger_alert_def trigger_emergency_call_def initial_system_def
      Let_def)


text \<open>
  C7. A round of the sensor loop starts a dispatch exactly when the reading is a candidate and
  the cooldown gate is open, and the dispatch it starts is auto-triggered, carries the
  reading, and has the alert type of the first match of: heart rate above 140 gives HEART,
  else SpO2 below 90 gives SPO2, else temperature above 38.5 gives TEMP, else GENERAL.
\<close>

theorem alert_type_first_match:
  "snd (simulate_iteration hr spo2 temp should_spike stamp current_time s) =
     (if (should_spike \<or> score (analyze hr spo2 temp False False) \<ge> 25)
         \<and> (LAST_AUTO_CALL s = None
              \<or> (\<exists>last_call. LAST_AUTO_CALL s = Some last_call \<and> current_time - last_call \<ge> 30))
      then Some \<lparr> th_alert_type =
                    (if hr > 140 then ''HEART''
                     else if spo2 < 90 then ''SPO2''
                     else if temp > 38.5 then ''TEMP''
                     else ''GENERAL''),
                  th_sensor_data = \<lparr> sd_hr = hr, sd_spo2 = spo2, sd_temp = temp,
                                     sd_fall = False, sd_help = False \<rparr>,
                  th_auto_triggered = True \<rparr>
      else None)"
  by (cases "LAST_AUTO_CALL s") (simp_all add: simulate_spawn)

text \<open>
  Each branch of the chain at a reading: HEART (also with low SpO2 and fever), SPO2 (also
  with fever), TEMP, GENERAL for a spike to SpO2 91; and no dispatch for a normal reading.
\<close>

theorem alert_type_first_match_witness:
  "th_alert_type (the (snd (simulate_iteration 150 97 36.8 True ''2026-01-01 10:00:00'' 0
      initial_system))) = ''HEART''
   \<and> th_alert_type (the (snd (simulate_iteration 150 88 39 True ''2026-01-01 10:00:00'' 0
      initial_system))) = ''HEART''
   \<and> th_alert_type (the (snd (simulate_iteration 75 88 36.8 True ''2026-01-01 10:00:00'' 0
      initial_system))) = ''SPO2''
   \<and> th_alert_type (the (snd (simulate_iteration 75 88 39 True ''2026-01-01 10:00:00'' 0
      initial_system))) = ''SPO2''
   \<and> th_alert_type (the (snd (simulate_iteration 75 97 39 True ''2026-01-01 10:00:00'' 0
      initial_system))) = ''TEMP''
   \<and> th_alert_type (the (snd (simulate_iteration 75 91 36.8 True ''2026-01-01 10:00:00'' 0
      initial_system))) = ''GENERAL''
   \<and> snd (simulate_iteration 75 97 36.8 False ''2026-01-01 10:00:00'' 0 initial_system) = None"
  by (intro conjI)
    (simp_all add: alert_type_first_match initial_system_LAST_AUTO_CALL analyze_score
      spec_rules_def matching_rules_def)

text \<open>
  C8. On a missing file \<open>init_excel_file\<close> creates the workbook with the four sheets and no
  data row; an existing workbook is left as it is; running it twice is running it once.
\<close>

theorem init_excel_file_idempotent:
  "init_excel_file None = Some new_workbook
   \<and> rows (Vital_Signs new_workbook) = []
   \<and> rows (Emergency_Calls new_workbook) = []
   \<and> rows (Fall_Events new_workbook) = []
   \<and> rows (Help_Requests new_workbook) = []
   \<and> init_excel_file (Some wb) = Some wb
   \<and> init_excel_file (init_excel_file f) = init_excel_file f"
  by (simp add: init_excel_file_def new_workbook_def)

text \<open>
  Two spike readings at clock readings 0 and 29: the dispatch of the first fails to place
  its call, so \<open>LAST_AUTO_CALL\<close> stays unset and the second reading starts a dispatch too.
\<close>

theorem second_reading_escalates_after_failed_call:
  "snd (simulate_iteration 150 97 36.8 True ''2026-01-01 10:00:00'' 0 initial_system) =
     Some \<lparr> th_alert_type = ''HEART'',
            th_sensor_data = \<lparr> sd_hr = 150, sd_spo2 = 97, sd_temp = 36.8,
                               sd_fall = False, sd_help = False \<rparr>,
            th_auto_triggered = True \<rparr>
   \<and> snd (simulate_iteration 150 97 36.8 True ''2026-01-01 10:00:29'' 29
       (run_thread
          \<lparr> th_alert_type = ''HEART'',
            th_sensor_data = \<lparr> sd_hr = 150, sd_spo2 = 97, sd_temp = 36.8,
                               sd_fall = False, sd_help = False \<rparr>,
            th_auto_triggered = True \<rparr>
          \<lparr> log_stamp = ''2026-01-01 10:00:00'', event_stamp = ''2026-01-01 10:00:00'',
            call_result = Call_Failed ''HTTPSConnectionPool: Max retries exceeded'',
            call_clock = 1 \<rparr>
          (fst (simulate_iteration 150 97 36.8 True ''2026-01-01 10:00:00'' 0 initial_system)))) =
     Some \<lparr> th_alert_type = ''HEART'',
            th_sensor_data = \<lparr> sd_hr = 150, sd_spo2 = 97, sd_temp = 36.8,
                               sd_fall = False, sd_help = False \<rparr>,
            th_auto_triggered = True \<rparr>"
  by (simp add: simulate_spawn run_thread_def trigger_LAST_AUTO_CALL simulate_LAST_AUTO_CALL
      initial_system_LAST_AUTO_CALL)

text \<open>
  C4, as the code has it. A round of the sensor loop starts a dispatch exactly when the reading is
  a candidate (spike, or score at least 25) and \<open>LAST_AUTO_CALL\<close> is unset or at least 30
  seconds old. Hence, for three candidate readings at \<open>t0\<close>, \<open>t0 + 29\<close> and \<open>t0 + 31\<close>,
  starting with \<open>LAST_AUTO_CALL\<close> unset: when the dispatch of the first runs before the
  second reading, its call succeeds and its clock reading lies in \<open>[t0, t0 + 1]\<close>, the first
  reading starts a dispatch, the second does not, and the third does.
\<close>

theorem cooldown_gate_and_scenario:
  "(snd (simulate_iteration hr spo2 temp should_spike stamp now s) \<noteq> None) =
     ((should_spike \<or> score (analyze hr spo2 temp False False) \<ge> 25)
      \<and> (LAST_AUTO_CALL s = None \<or> (\<exists>l. LAST_AUTO_CALL s = Some l \<and> now - l \<ge> 30)))
   \<and> ((should_spike \<or> score (analyze hr spo2 temp False False) \<ge> 25)
        \<and> (spike2 \<or> score (analyze hr2 spo22 temp2 False False) \<ge> 25)
        \<and> (spike3 \<or> score (analyze hr3 spo23 temp3 False False) \<ge> 25)
        \<and> LAST_AUTO_CALL s0 = None
        \<and> call_result env = Call_Initiated sid
        \<and> t0 \<le> call_clock env \<and> call_clock env \<le> t0 + 1
      \<longrightarrow> (\<exists>args.
           snd (simulate_iteration hr spo2 temp should_spike stamp t0 s0) = Some args
           \<and> snd (simulate_iteration hr2 spo22 temp2 spike2 stamp2 (t0 + 29)
                 (run_thread args env
                    (fst (simulate_iteration hr spo2 temp should_spike stamp t0 s0)))) = None
           \<and> snd (simulate_iteration hr3 spo23 temp3 spike3 stamp3 (t0 + 31)
                 (fst (simulate_iteration hr2 spo22 temp2 spike2 stamp2 (t0 + 29)
                    (run_thread args env
                       (fst (simulate_iteration hr spo2 temp should_spike stamp t0 s0))))))
               \<noteq> None))"
proof (intro conjI impI)
  show "(snd (simulate_iteration hr spo2 temp should_spike stamp now s) \<noteq> None) =
     ((should_spike \<or> score (analyze hr spo2 temp False False) \<ge> 25)
      \<and> (LAST_AUTO_CALL s = None \<or> (\<exists>l. LAST_AUTO_CALL s = Some l \<and> now - l \<ge> 30)))"
    by (auto simp add: simulate_spawn split: option.splits)
next
  assume hyps: "(should_spike \<or> score (analyze hr spo2 temp False False) \<ge> 25)
        \<and> (spike2 \<or> score (analyze hr2 spo22 temp2 False False) \<ge> 25)
        \<and> (spike3 \<or> score (analyze hr3 spo23 temp3 False False) \<ge> 25)
        \<and> LAST_AUTO_CALL s0 = None
        \<and> call_result env = Call_Initiated sid
        \<and> t0 \<le> call_clock env \<and> call_clock env \<le> t0 + 1"
  then have cand: "should_spike \<or> score (analyze hr spo2 temp False False) \<ge> 25"
    and cand3: "spike3 \<or> score (analyze hr3 spo23 temp3 False False) \<ge> 25"
    and unset: "LAST_AUTO_CALL s0 = None"
    and ok: "call_result env = Call_Initiated sid"
    and clock: "t0 \<le> call_clock env" "call_clock env \<le> t0 + 1"
    by simp_all
  let ?s1 = "fst (simulate_iteration hr spo2 temp should_spike stamp t0 s0)"
  let ?args = "\<lparr> th_alert_type =
                    (if hr > 140 then ''HEART''
                     else if spo2 < 90 then ''SPO2''
                     else if temp > 38.5 then ''TEMP''
                     else ''GENERAL''),
                  th_sensor_data = \<lparr> sd_hr = hr, sd_spo2 = spo2, sd_temp = temp,
                                     sd_fall = False, sd_help = False \<rparr>,
                  th_auto_triggered = True \<rparr>"
  let ?s2 = "run_thread ?args env ?s1"
  let ?s3 = "fst (simulate_iteration hr2 spo22 temp2 spike2 stamp2 (t0 + 29) ?s2)"
  have first: "snd (simulate_iteration hr spo2 temp should_spike stamp t0 s0) = Some ?args"
    using cand unset by (simp add: simulate_spawn)
  have stamped: "LAST_AUTO_CALL ?s2 = Some (call_clock env)"
    using ok by (simp add: run_thread_def trigger_LAST_AUTO_CALL)
  have second: "snd (simulate_iteration hr2 spo22 temp2 spike2 stamp2 (t0 + 29) ?s2) = None"
    using clock by (simp add: simulate_spawn stamped)
  have kept: "LAST_AUTO_CALL ?s3 = Some (call_clock env)"
    by (simp only: simulate_LAST_AUTO_CALL stamped)
  have third: "snd (simulate_iteration hr3 spo23 temp3 spike3 stamp3 (t0 + 31) ?s3) \<noteq> None"
    using cand3 clock by (simp add: simulate_spawn kept)
  from first second third
  show "\<exists>args.
           snd (simulate_iteration hr spo2 temp should_spike stamp t0 s0) = Some args
           \<and> snd (simulate_iteration hr2 spo22 temp2 spike2 stamp2 (t0 + 29)
                 (run_thread args env
                    (fst (simulate_iteration hr spo2 temp should_spike stamp t0 s0)))) = None
           \<and> snd (simulate_iteration hr3 spo23 temp3 spike3 stamp3 (t0 + 31)
                 (fst (simulate_iteration hr2 spo22 temp2 spike2 stamp2 (t0 + 29)
                    (run_thread args env
                       (fst (simulate_iteration hr spo2 temp should_spike stamp t0 s0))))))
               \<noteq> None"
    by blast
qed


theorem cooldown_gate_and_scenario_witness:
  "call_result \<lparr> log_stamp = ''2026-01-01 10:00:00'', event_stamp = ''2026-01-01 10:00:00'',
                 call_result = Call_Initiated ''CA01'', call_clock = 0.4 \<rparr> = Call_Initiated ''CA01''
   \<and> score (analyze 150 97 36.8 False False) \<ge> 25
   \<and> LAST_AUTO_CALL initial_system = None
   \<and> (\<exists>args.
        snd (simulate_iteration 150 97 36.8 True ''2026-01-01 10:00:00'' 0 initial_system) = Some args
        \<and> snd (simulate_iteration 150 97 36.8 True ''2026-01-01 10:00:29'' (0 + 29)
              (run_thread args
                 \<lparr> log_stamp = ''2026-01-01 10:00:00'', event_stamp = ''2026-01-01 10:00:00'',
                   call_result = Call_Initiated ''CA01'', call_clock = 0.4 \<rparr>
                 (fst (simulate_iteration 150 97 36.8 True ''2026-01-01 10:00:00'' 0
                         initial_system)))) = None
        \<and> snd (simulate_iteration 150 97 36.8 True ''2026-01-01 10:00:31'' (0 + 31)
              (fst (simulate_iteration 150 97 36.8 True ''2026-01-01 10:00:29'' (0 + 29)
                 (run_thread args
                    \<lparr> log_stamp = ''2026-01-01 10:00:00'', event_stamp = ''2026-01-01 10:00:00'',
                      call_result = Call_Initiated ''CA01'', call_clock = 0.4 \<rparr>
                    (fst (simulate_iteration 150 97 36.8 True ''2026-01-01 10:00:00'' 0
                            initial_system))))))
            \<noteq> None)"
  using score_150_97 cooldown_gate_and_scenario [of 150 97 "36.8" True "''2026-01-01 10:00:00''" 0
      initial_system True 150 97 "36.8" True 150 97 "36.8" initial_system
      "\<lparr> log_stamp = ''2026-01-01 10:00:00'', event_stamp = ''2026-01-01 10:00:00'',
         call_result = Call_Initiated ''CA01'', call_clock = 0.4 \<rparr>" "''CA01''" 0
      "''2026-01-01 10:00:29''" "''2026-01-01 10:00:31''"]
  by (simp add: initial_system_LAST_AUTO_CALL)


section \<open>Properties of the workbook\<close>

lemma overlay_concat_row: "overlay (concat_row d r) d = concat_row d r"
  by (simp add: overlay_def concat_row_def)

lemma append_vital_reading_Some:
  "append_vital_reading hr spo2 temp e sc stamp (Some wb) =
     Some (wb \<lparr> Vital_Signs := concat_row (Vital_Signs wb)
       \<lparr> Timestamp = stamp, Heart_Rate_BPM = hr, SpO2_Percent = spo2,
         Temperature_Celsius = temp, Emotional_State = e, Emotion_Score = sc \<rparr> \<rparr>)"
  by (simp add: append_vital_reading_def Let_def overlay_concat_row)

lemma append_emergency_call_Some:
  "append_emergency_call a hr spo2 temp e auto stamp (Some wb) =
     Some (wb \<lparr> Emergency_Calls := concat_row (Emergency_Calls wb)
       (emergency_call_row a hr spo2 temp e auto stamp) \<rparr>)"
  by (simp add: append_emergency_call_def Let_def overlay_concat_row)

lemma append_fall_event_Some:
  "append_fall_event stamp (Some wb) =
     Some (wb \<lparr> Fall_Events := concat_row (Fall_Events wb) stamp \<rparr>)"
  by (simp add: append_fall_event_def Let_def overlay_concat_row)

lemma append_help_request_Some:
  "append_help_request stamp (Some wb) =
     Some (wb \<lparr> Help_Requests := concat_row (Help_Requests wb) stamp \<rparr>)"
  by (simp add: append_help_request_def Let_def overlay_concat_row)

text \<open>The dispatcher writes the sheets Emergency_Calls, Fall_Events and Help_Requests only.\<close>

lemma trigger_excel_file:
  "excel_file s = Some wb \<Longrightarrow>
     \<exists>wb'. excel_file (trigger_emergency_call alert_type sensor_data auto_triggered env s) = Some wb'
       \<and> Vital_Signs wb' = Vital_Signs wb
       \<and> rows (Emergency_Calls wb') = rows (Emergency_Calls wb) @
           [emergency_call_row alert_type (sd_hr sensor_data) (sd_spo2 sensor_data)
              (sd_temp sensor_data)
              (emotion (analyze (sd_hr sensor_data) (sd_spo2 sensor_data) (sd_temp sensor_data)
                 (sd_fall sensor_data) (sd_help sensor_data)))
              auto_triggered (log_stamp env)]"
  by (simp add: trigger_emergency_call_def Let_def split_def append_emergency_call_Some
      append_fall_event_Some append_help_request_Some concat_row_def
      split: call_outcome.split)

lemma simulate_excel_file:
  "excel_file s = Some wb \<Longrightarrow>
     \<exists>wb'. excel_file (fst (simulate_iteration hr spo2 temp should_spike stamp current_time s)) = Some wb'
       \<and> rows (Vital_Signs wb') = rows (Vital_Signs wb) @
           [\<lparr> Timestamp = stamp, Heart_Rate_BPM = hr, SpO2_Percent = spo2,
              Temperature_Celsius = temp,
              Emotional_State = emotion (analyze hr spo2 temp False False),
              Emotion_Score = score (analyze hr spo2 temp False False) \<rparr>]"
  by (simp add: simulate_iteration_def Let_def append_vital_reading_Some concat_row_def)


lemma sensor_rows_Cons: "sensor_rows (e # es) = sensor_rows [e] @ sensor_rows es"
  by (cases e) simp_all


text \<open>
  The reading of the manual HEART button (155, 96, 37.0) is scored by the dispatcher, which
  writes the resulting emotion into sheet Emergency_Calls; sheet Vital_Signs holds no row
  afterwards.
\<close>

theorem manual_reading_scored_but_not_in_vital_log:
  "map_option (\<lambda>wb. (map Emotion_State (rows (Emergency_Calls wb)), rows (Vital_Signs wb)))
     (excel_file
        (run_thread (trigger_alert ''HEART'' 155 96 37 False False)
           \<lparr> log_stamp = ''2026-01-01 10:00:00'', event_stamp = ''2026-01-01 10:00:00'',
             call_result = Call_Initiated ''CA01'', call_clock = 1 \<rparr>
           initial_system)) =
   Some ([emotion (analyze 155 96 37 False False)], [])"
  by (simp add: run_thread_def trigger_alert_def trigger_emergency_call_def Let_def
      initial_system_def init_excel_file_def new_workbook_def append_emergency_call_Some
      concat_row_def emergency_call_row_def)


section \<open>Appends to one sheet from several threads\<close>

lemma serial_schedule_0: "serial_schedule k 0 = []"
  by (simp add: serial_schedule_def)

lemma serial_schedule_Suc: "serial_schedule k (Suc n) = k # k # serial_schedule (Suc k) n"
  by (simp add: serial_schedule_def upt_conv_Cons)

text \<open>A thread that runs its two steps with no other thread in between is the method itself.\<close>

lemma appender_two_steps:
  "appender_step (fst (appender_step (Before_Read new_row) f))
     (snd (appender_step (Before_Read new_row) f)) =
   (Returned,
    case f of None \<Rightarrow> None
    | Some wb \<Rightarrow> Some (wb \<lparr> Emergency_Calls := concat_row (Emergency_Calls wb) new_row \<rparr>))"
  by (simp add: overlay_concat_row split: option.split)

lemma run_schedule_thread_to_its_end:
  "length finished = k \<Longrightarrow>
     run_schedule (k # k # sched) (finished @ Before_Read new_row # waiting, Some wb) =
     run_schedule sched
       ((finished @ [Returned]) @ waiting,
        Some (wb \<lparr> Emergency_Calls := concat_row (Emergency_Calls wb) new_row \<rparr>))"
  by (auto simp add: overlay_concat_row nth_append list_update_append)

lemma run_serial_schedule:
  "length finished = k \<Longrightarrow>
     run_schedule (serial_schedule k (length new_rows))
       (finished @ map Before_Read new_rows, Some wb) =
     (finished @ replicate (length new_rows) Returned,
      Some (wb \<lparr> Emergency_Calls :=
        (Emergency_Calls wb) \<lparr> rows := rows (Emergency_Calls wb) @ new_rows \<rparr> \<rparr>))"
proof (induction new_rows arbitrary: finished k wb)
  case Nil
  then show ?case by (simp add: serial_schedule_0)
next
  case (Cons r new_rows)
  let ?wb1 = "wb \<lparr> Emergency_Calls := concat_row (Emergency_Calls wb) r \<rparr>"
  have len: "length (finished @ [Returned]) = Suc k"
    using Cons.prems by simp
  have "run_schedule (serial_schedule k (length (r # new_rows)))
          (finished @ map Before_Read (r # new_rows), Some wb) =
        run_schedule (serial_schedule (Suc k) (length new_rows))
          ((finished @ [Returned]) @ map Before_Read new_rows, Some ?wb1)"
    using run_schedule_thread_to_its_end [OF Cons.prems, of "serial_schedule (Suc k) (length new_rows)" r
        "map Before_Read new_rows" wb]
    by (simp add: serial_schedule_Suc)
  also have "\<dots> = ((finished @ [Returned]) @ replicate (length new_rows) Returned,
      Some (?wb1 \<lparr> Emergency_Calls :=
        (Emergency_Calls ?wb1) \<lparr> rows := rows (Emergency_Calls ?wb1) @ new_rows \<rparr> \<rparr>))"
    by (rule Cons.IH [OF len])
  also have "\<dots> = (finished @ replicate (length (r # new_rows)) Returned,
      Some (wb \<lparr> Emergency_Calls :=
        (Emergency_Calls wb) \<lparr> rows := rows (Emergency_Calls wb) @ r # new_rows \<rparr> \<rparr>))"
    by (simp add: concat_row_def)
  finally show ?case .
qed

text \<open>
  Two dispatch threads append to sheet Emergency_Calls of a fresh workbook; both read the
  sheet before either writes. Both return, and the sheet holds one row, not two: the row of
  the first writer is overwritten.
\<close>

theorem overlapping_appends_lose_a_record:
  "run_schedule [0, 1, 0, 1]
     ([Before_Read (emergency_call_row ''HEART'' 155 96 37 ''MODERATE STRESS'' False
                      ''2026-01-01 10:00:00''),
       Before_Read (emergency_call_row ''SPO2'' 110 88 36.9 ''MODERATE STRESS'' False
                      ''2026-01-01 10:00:00'')],
      Some new_workbook) =
   ([Returned, Returned],
    Some (new_workbook \<lparr> Emergency_Calls := (Emergency_Calls new_workbook)
       \<lparr> rows := [emergency_call_row ''SPO2'' 110 88 36.9 ''MODERATE STRESS'' False
                    ''2026-01-01 10:00:00''] \<rparr> \<rparr>))"
  by (simp add: overlay_def concat_row_def new_workbook_def)

text \<open>
  C9, as the code has it. For every number of threads appending to sheet Emergency_Calls of an
  existing workbook: when the threads run one after the other, each from its read to its
  write with no other thread in between, all return and the sheet has grown by exactly their
  rows, in order. A thread that runs so is \<open>append_emergency_call\<close>. The source has no
  lock that would force such a schedule.
\<close>

theorem serial_appends_add_each_record:
  "run_schedule (serial_schedule 0 (length new_rows)) (map Before_Read new_rows, Some wb) =
     (replicate (length new_rows) Returned,
      Some (wb \<lparr> Emergency_Calls :=
        (Emergency_Calls wb) \<lparr> rows := rows (Emergency_Calls wb) @ new_rows \<rparr> \<rparr>))
   \<and> snd (run_schedule [0, 0]
          ([Before_Read (emergency_call_row alert_type hr spo2 temp emotion_name auto_triggered stamp)],
           f)) =
       append_emergency_call alert_type hr spo2 temp emotion_name auto_triggered stamp f"
proof
  show "run_schedule (serial_schedule 0 (length new_rows)) (map Before_Read new_rows, Some wb) =
     (replicate (length new_rows) Returned,
      Some (wb \<lparr> Emergency_Calls :=
        (Emergency_Calls wb) \<lparr> rows := rows (Emergency_Calls wb) @ new_rows \<rparr> \<rparr>))"
    using run_serial_schedule [of "[]" 0 new_rows wb] by simp
next
  show "snd (run_schedule [0, 0]
          ([Before_Read (emergency_call_row alert_type hr spo2 temp emotion_name auto_triggered stamp)],
           f)) =
       append_emergency_call alert_type hr spo2 temp emotion_name auto_triggered stamp f"
    by (cases f) (simp_all add: append_emergency_call_def Let_def)
qed

theorem serial_appends_add_each_record_witness:
  "run_schedule [0, 0, 1, 1]
     ([Before_Read (emergency_call_row ''HEART'' 155 96 37 ''MODERATE STRESS'' False
                      ''2026-01-01 10:00:00''),
       Before_Read (emergency_call_row ''SPO2'' 110 88 36.9 ''MODERATE STRESS'' False
                      ''2026-01-01 10:00:00'')],
      Some new_workbook) =
   ([Returned, Returned],
    Some (new_workbook \<lparr> Emergency_Calls := (Emergency_Calls new_workbook)
       \<lparr> rows := [emergency_call_row ''HEART'' 155 96 37 ''MODERATE STRESS'' False
                    ''2026-01-01 10:00:00'',
                  emergency_call_row ''SPO2'' 110 88 36.9 ''MODERATE STRESS'' False
                    ''2026-01-01 10:00:00''] \<rparr> \<rparr>))"
proof -
  have sched: "serial_schedule 0 (Suc (Suc 0)) = [0, 0, 1, 1]"
    by (simp add: serial_schedule_Suc serial_schedule_0)
  have empty: "rows (Emergency_Calls new_workbook) = []"
    by (simp add: new_workbook_def)
  from serial_appends_add_each_record [of
      "[emergency_call_row ''HEART'' 155 96 37 ''MODERATE STRESS'' False ''2026-01-01 10:00:00'',
        emergency_call_row ''SPO2'' 110 88 36.9 ''MODERATE STRESS'' False ''2026-01-01 10:00:00'']"
      new_workbook]
  show ?thesis by (simp add: sched empty)
qed

section \<open>Threads that run without another thread in between\<close>

lemma run_steps_Ended: "run_steps n (Ended started, s) = (Ended started, s)"
  by (induction n) simp_all

lemma sensor_thread_run:
  "run_steps (steps_bound (sensor_thread hr spo2 temp should_spike stamp current_time))
     (sensor_thread hr spo2 temp should_spike stamp current_time, s) =
   (Ended (snd (simulate_iteration hr spo2 temp should_spike stamp current_time s)),
    fst (simulate_iteration hr spo2 temp should_spike stamp current_time s))"
proof (cases s)
  case (fields last_call wfile counter requests)
  show ?thesis
  proof (cases wfile)
    case None
    with fields show ?thesis
      by (simp add: sensor_thread_def Let_def simulate_spawn simulate_iteration_def
          append_vital_reading_def)
  next
    case (Some wb)
    with fields show ?thesis
      by (simp add: sensor_thread_def Let_def simulate_spawn simulate_iteration_def
          append_vital_reading_def vital_reading_update_def)
  qed
qed

lemma dispatch_thread_run:
  "run_steps (steps_bound (dispatch_thread alert_type sensor_data auto_triggered env))
     (dispatch_thread alert_type sensor_data auto_triggered env, s) =
   (Ended None, trigger_emergency_call alert_type sensor_data auto_triggered env s)"
proof (cases s)
  case (fields last_call wfile counter requests)
  show ?thesis
  proof (cases wfile)
    case None
    with fields show ?thesis
      by (simp add: dispatch_thread_def trigger_emergency_call_def Let_def
          append_emergency_call_def append_help_request_def append_fall_event_def
          split: call_outcome.split)
  next
    case (Some wb)
    with fields show ?thesis
      by (simp add: dispatch_thread_def trigger_emergency_call_def Let_def
          append_emergency_call_def append_help_request_def append_fall_event_def
          emergency_call_update_def help_request_update_def fall_event_update_def
          split: call_outcome.split)
  qed
qed

lemma thread_of_uninterrupted:
  "run_steps (steps_bound (thread_of e)) (thread_of e, s) =
     (Ended (case e of
               Sensor_Round hr spo2 temp should_spike stamp current_time \<Rightarrow>
                 snd (simulate_iteration hr spo2 temp should_spike stamp current_time s)
             | Dispatch args env \<Rightarrow> None
             | Reset_Button \<Rightarrow> None),
      uninterrupted e s)"
  by (cases e) (simp_all add: sensor_thread_run dispatch_thread_run run_thread_def
      reset_counter_def)

section \<open>Threads that run one after the other\<close>

lemma run_pool_whole_thread:
  "length finished = k \<Longrightarrow>
     run_pool (replicate n k @ sched) (finished @ t # waiting, s) =
     run_pool sched
       (finished @ fst (run_steps n (t, s)) # waiting, snd (run_steps n (t, s)))"
proof (induction n arbitrary: t s)
  case 0
  show ?case by simp
next
  case (Suc n)
  obtain t' s' where step: "thread_step t s = (t', s')"
    by (cases "thread_step t s")
  have "run_pool (replicate (Suc n) k @ sched) (finished @ t # waiting, s) =
        run_pool (replicate n k @ sched) (finished @ t' # waiting, s')"
    using Suc.prems step by (auto simp add: nth_append list_update_append)
  also have "\<dots> = run_pool sched
       (finished @ fst (run_steps n (t', s')) # waiting, snd (run_steps n (t', s')))"
    by (rule Suc.IH [OF Suc.prems])
  finally show ?case by (simp add: step)
qed

lemma run_pool_serial:
  "length finished = k \<Longrightarrow>
     snd (run_pool (serial_from k (map thread_of es)) (finished @ map thread_of es, s)) =
     fold uninterrupted es s"
proof (induction es arbitrary: finished k s)
  case Nil
  show ?case by simp
next
  case (Cons e es)
  let ?n = "steps_bound (thread_of e)"
  let ?t' = "fst (run_steps ?n (thread_of e, s))"
  have len: "length (finished @ [?t']) = Suc k"
    using Cons.prems by simp
  have "run_pool (serial_from k (map thread_of (e # es))) (finished @ map thread_of (e # es), s) =
        run_pool (serial_from (Suc k) (map thread_of es))
          ((finished @ [?t']) @ map thread_of es, uninterrupted e s)"
    using run_pool_whole_thread [OF Cons.prems, of ?n "serial_from (Suc k) (map thread_of es)"
        "thread_of e" "map thread_of es" s]
    by (simp add: thread_of_uninterrupted)
  then show ?case
    using Cons.IH [OF len, of "uninterrupted e s"] by simp
qed

lemma serial_run_uninterrupted:
  "snd (run_pool (serial_run (map thread_of es)) (map thread_of es, s)) =
     fold uninterrupted es s"
  using run_pool_serial [of "[]" 0 es s] by (simp add: serial_run_def)

text \<open>The counter over one event and over events one after the other.\<close>

lemma uninterrupted_call_counter:
  "e \<noteq> Reset_Button \<Longrightarrow>
     call_counter (uninterrupted e s) = call_counter s + initiated_calls [e]"
  by (cases e) (simp_all add: simulate_call_counter run_thread_def trigger_call_counter
      split: call_outcome.split)

lemma fold_uninterrupted_call_counter:
  "Reset_Button \<notin> set es \<Longrightarrow>
     call_counter (fold uninterrupted es s) = call_counter s + initiated_calls es"
proof (induction es arbitrary: s)
  case Nil
  show ?case by simp
next
  case (Cons e es)
  from Cons.prems have e: "e \<noteq> Reset_Button" and es: "Reset_Button \<notin> set es"
    by auto
  have "call_counter (fold uninterrupted (e # es) s) =
        call_counter (uninterrupted e s) + initiated_calls es"
    using Cons.IH [OF es, of "uninterrupted e s"] by simp
  also have "\<dots> = call_counter s + initiated_calls [e] + initiated_calls es"
    by (simp only: uninterrupted_call_counter [OF e])
  also have "\<dots> = call_counter s + initiated_calls (e # es)"
    using initiated_calls_Cons [of e es] by simp
  finally show ?case .
qed

text \<open>
  C6, as the code has it. When the threads run one after the other (no thread takes a step
  between the first and the last step of another) and none is the reset button, the counter
  grows by exactly the number of dispatches whose call was initiated: a failed call adds
  nothing, a round of the sensor loop adds nothing. The reset button sets the counter to 0.
\<close>

theorem serial_run_counts_initiated_calls:
  "Reset_Button \<notin> set es \<Longrightarrow>
     call_counter (snd (run_pool (serial_run (map thread_of es)) (map thread_of es, s))) =
       call_counter s + initiated_calls es
     \<and> call_counter (snd (run_pool (serial_run [thread_of Reset_Button])
                              ([thread_of Reset_Button], s))) = 0"
proof
  assume "Reset_Button \<notin> set es"
  then show "call_counter (snd (run_pool (serial_run (map thread_of es)) (map thread_of es, s))) =
       call_counter s + initiated_calls es"
    by (simp add: serial_run_uninterrupted fold_uninterrupted_call_counter)
next
  show "call_counter (snd (run_pool (serial_run [thread_of Reset_Button])
                              ([thread_of Reset_Button], s))) = 0"
    by (simp add: serial_run_def)
qed

theorem serial_run_counts_initiated_calls_witness:
  "Reset_Button \<notin> set
       [Dispatch (trigger_alert ''TEMP'' 98 96 39.2 False False)
          \<lparr> log_stamp = ''2026-01-01 10:00:00'', event_stamp = ''2026-01-01 10:00:00'',
            call_result = Call_Initiated ''CA01'', call_clock = 1 \<rparr>,
        Dispatch (trigger_alert ''HEART'' 155 96 37 False False)
          \<lparr> log_stamp = ''2026-01-01 10:00:05'', event_stamp = ''2026-01-01 10:00:05'',
            call_result = Call_Failed ''HTTPSConnectionPool: Max retries exceeded'',
            call_clock = 6 \<rparr>]
   \<and> call_counter (snd (run_pool
       (serial_run (map thread_of
         [Dispatch (trigger_alert ''TEMP'' 98 96 39.2 False False)
            \<lparr> log_stamp = ''2026-01-01 10:00:00'', event_stamp = ''2026-01-01 10:00:00'',
              call_result = Call_Initiated ''CA01'', call_clock = 1 \<rparr>,
          Dispatch (trigger_alert ''HEART'' 155 96 37 False False)
            \<lparr> log_stamp = ''2026-01-01 10:00:05'', event_stamp = ''2026-01-01 10:00:05'',
              call_result = Call_Failed ''HTTPSConnectionPool: Max retries exceeded'',
              call_clock = 6 \<rparr>]))
       (map thread_of
         [Dispatch (trigger_alert ''TEMP'' 98 96 39.2 False False)
            \<lparr> log_stamp = ''2026-01-01 10:00:00'', event_stamp = ''2026-01-01 10:00:00'',
              call_result = Call_Initiated ''CA01'', call_clock = 1 \<rparr>,
          Dispatch (trigger_alert ''HEART'' 155 96 37 False False)
            \<lparr> log_stamp = ''2026-01-01 10:00:05'', event_stamp = ''2026-01-01 10:00:05'',
              call_result = Call_Failed ''HTTPSConnectionPool: Max retries exceeded'',
              call_clock = 6 \<rparr>],
        initial_system))) = 1"
proof -
  let ?es = "[Dispatch (trigger_alert ''TEMP'' 98 96 39.2 False False)
          \<lparr> log_stamp = ''2026-01-01 10:00:00'', event_stamp = ''2026-01-01 10:00:00'',
            call_result = Call_Initiated ''CA01'', call_clock = 1 \<rparr>,
        Dispatch (trigger_alert ''HEART'' 155 96 37 False False)
          \<lparr> log_stamp = ''2026-01-01 10:00:05'', event_stamp = ''2026-01-01 10:00:05'',
            call_result = Call_Failed ''HTTPSConnectionPool: Max retries exceeded'',
            call_clock = 6 \<rparr>]"
  have no_reset: "Reset_Button \<notin> set ?es"
    by simp
  have start: "call_counter initial_system = 0"
    by (simp add: initial_system_def)
  have count: "initiated_calls ?es = 1"
    by simp
  from serial_run_counts_initiated_calls [OF no_reset, of initial_system]
  have "call_counter (snd (run_pool (serial_run (map thread_of ?es))
          (map thread_of ?es, initial_system))) = call_counter initial_system + initiated_calls ?es"
    by (rule conjunct1)
  then have "call_counter (snd (run_pool (serial_run (map thread_of ?es))
          (map thread_of ?es, initial_system))) = 1"
    by (simp only: start count)
  with no_reset show ?thesis by (rule conjI)
qed

text \<open>
  Without that condition the counter can miss a call: two manual dispatches place their calls,
  both read the label before either writes it, and the counter shows 1 after 2 calls.
\<close>

lemma overlapping_dispatches_count_once:
  "(\<lambda>s. (length (calls_create s), call_counter s))
     (snd (run_pool [0, 0, 0, 0, 1, 1, 1, 1, 0, 1, 0, 1]
        ([dispatch_thread ''HEART''
            \<lparr> sd_hr = 155, sd_spo2 = 96, sd_temp = 37, sd_fall = False, sd_help = False \<rparr>
            False
            \<lparr> log_stamp = ''2026-01-01 10:00:00'', event_stamp = ''2026-01-01 10:00:00'',
              call_result = Call_Initiated ''CA01'', call_clock = 1 \<rparr>,
          dispatch_thread ''TEMP''
            \<lparr> sd_hr = 98, sd_spo2 = 96, sd_temp = 39.2, sd_fall = False, sd_help = False \<rparr>
            False
            \<lparr> log_stamp = ''2026-01-01 10:00:00'', event_stamp = ''2026-01-01 10:00:00'',
              call_result = Call_Initiated ''CA02'', call_clock = 1 \<rparr>],
         initial_system))) = (2, 1)"
  by (simp add: dispatch_thread_def Let_def initial_system_def init_excel_file_def)

section \<open>The vital log\<close>

lemma uninterrupted_vital_rows:
  "excel_file s = Some wb \<Longrightarrow>
     \<exists>wb'. excel_file (uninterrupted e s) = Some wb'
       \<and> rows (Vital_Signs wb') = rows (Vital_Signs wb) @ sensor_rows [e]"
proof (cases e)
  case (Sensor_Round hr spo2 temp should_spike stamp current_time)
  assume "excel_file s = Some wb"
  from simulate_excel_file [OF this, of hr spo2 temp should_spike stamp current_time]
  show ?thesis by (simp add: Sensor_Round)
next
  case (Dispatch args env)
  assume "excel_file s = Some wb"
  from trigger_excel_file [OF this, of "th_alert_type args" "th_sensor_data args"
      "th_auto_triggered args" env]
  show ?thesis by (auto simp add: Dispatch run_thread_def)
next
  case Reset_Button
  assume "excel_file s = Some wb"
  then show ?thesis by (simp add: Reset_Button reset_counter_def)
qed

lemma fold_uninterrupted_vital_rows:
  "excel_file s = Some wb \<Longrightarrow>
     \<exists>wb'. excel_file (fold uninterrupted es s) = Some wb'
       \<and> rows (Vital_Signs wb') = rows (Vital_Signs wb) @ sensor_rows es"
proof (induction es arbitrary: s wb)
  case Nil
  then show ?case by simp
next
  case (Cons e es)
  from uninterrupted_vital_rows [OF Cons.prems, of e]
  obtain wb1 where wb1: "excel_file (uninterrupted e s) = Some wb1"
    and rows1: "rows (Vital_Signs wb1) = rows (Vital_Signs wb) @ sensor_rows [e]"
    by blast
  from Cons.IH [OF wb1]
  obtain wb' where wb': "excel_file (fold uninterrupted es (uninterrupted e s)) = Some wb'"
    and rows': "rows (Vital_Signs wb') = rows (Vital_Signs wb1) @ sensor_rows es"
    by blast
  have "rows (Vital_Signs wb') = rows (Vital_Signs wb) @ sensor_rows (e # es)"
    using rows1 rows' sensor_rows_Cons [of e es] by simp
  with wb' show ?case by simp
qed

text \<open>
  C3, as the code has it. When the workbook is in place and the threads run one after the
  other (no thread takes a step between the first and the last step of another), the
  workbook stays in place and sheet Vital_Signs grows by exactly one row for each round of
  the sensor loop, in order, holding that round's reading with its emotion and score, whether
  or not the round starts a dispatch; the dispatches (which score their reading again, or a
  manual reading for the first time) and the reset button add no row to it.
\<close>

theorem serial_run_vital_log_holds_each_sensor_reading_once:
  "excel_file s = Some wb \<Longrightarrow>
     \<exists>wb'. excel_file (snd (run_pool (serial_run (map thread_of es)) (map thread_of es, s))) =
             Some wb'
       \<and> rows (Vital_Signs wb') = rows (Vital_Signs wb) @ sensor_rows es"
  by (simp only: serial_run_uninterrupted) (rule fold_uninterrupted_vital_rows)

theorem serial_run_vital_log_holds_each_sensor_reading_once_witness:
  "excel_file initial_system = Some new_workbook
   \<and> (\<exists>wb'. excel_file (snd (run_pool
        (serial_run (map thread_of
          [Sensor_Round 150 97 36.8 True ''2026-01-01 10:00:00'' 0,
           Dispatch \<lparr> th_alert_type = ''HEART'',
                      th_sensor_data = \<lparr> sd_hr = 150, sd_spo2 = 97, sd_temp = 36.8,
                                         sd_fall = False, sd_help = False \<rparr>,
                      th_auto_triggered = True \<rparr>
             \<lparr> log_stamp = ''2026-01-01 10:00:00'', event_stamp = ''2026-01-01 10:00:00'',
               call_result = Call_Initiated ''CA01'', call_clock = 0.4 \<rparr>,
           Sensor_Round 75 97 36.8 False ''2026-01-01 10:00:03'' 3]))
        (map thread_of
          [Sensor_Round 150 97 36.8 True ''2026-01-01 10:00:00'' 0,
           Dispatch \<lparr> th_alert_type = ''HEART'',
                      th_sensor_data = \<lparr> sd_hr = 150, sd_spo2 = 97, sd_temp = 36.8,
                                         sd_fall = False, sd_help = False \<rparr>,
                      th_auto_triggered = True \<rparr>
             \<lparr> log_stamp = ''2026-01-01 10:00:00'', event_stamp = ''2026-01-01 10:00:00'',
               call_result = Call_Initiated ''CA01'', call_clock = 0.4 \<rparr>,
           Sensor_Round 75 97 36.8 False ''2026-01-01 10:00:03'' 3],
         initial_system))) = Some wb'
       \<and> rows (Vital_Signs wb') =
           [\<lparr> Timestamp = ''2026-01-01 10:00:00'', Heart_Rate_BPM = 150, SpO2_Percent = 97,
              Temperature_Celsius = 36.8, Emotional_State = ''MODERATE STRESS'',
              Emotion_Score = 30 \<rparr>,
            \<lparr> Timestamp = ''2026-01-01 10:00:03'', Heart_Rate_BPM = 75, SpO2_Percent = 97,
              Temperature_Celsius = 36.8, Emotional_State = ''STABLE'',
              Emotion_Score = 0 \<rparr>])"
proof -
  let ?es = "[Sensor_Round 150 97 36.8 True ''2026-01-01 10:00:00'' 0,
           Dispatch \<lparr> th_alert_type = ''HEART'',
                      th_sensor_data = \<lparr> sd_hr = 150, sd_spo2 = 97, sd_temp = 36.8,
                                         sd_fall = False, sd_help = False \<rparr>,
                      th_auto_triggered = True \<rparr>
             \<lparr> log_stamp = ''2026-01-01 10:00:00'', event_stamp = ''2026-01-01 10:00:00'',
               call_result = Call_Initiated ''CA01'', call_clock = 0.4 \<rparr>,
           Sensor_Round 75 97 36.8 False ''2026-01-01 10:00:03'' 3]"
  have f: "excel_file initial_system = Some new_workbook"
    by (simp add: initial_system_def init_excel_file_def)
  have a1: "analyze 150 97 36.8 False False =
      \<lparr> emotion = ''MODERATE STRESS'', score = 30, color = ''#FFA000'',
        factors = [''elevated_hr''] \<rparr>"
    by (simp add: analyze_def emotion_classification_def)
  have a2: "analyze 75 97 36.8 False False =
      \<lparr> emotion = ''STABLE'', score = 0, color = ''#00C853'', factors = [] \<rparr>"
    by (simp add: analyze_def emotion_classification_def)
  have r: "rows (Vital_Signs new_workbook) @ sensor_rows ?es =
           [\<lparr> Timestamp = ''2026-01-01 10:00:00'', Heart_Rate_BPM = 150, SpO2_Percent = 97,
              Temperature_Celsius = 36.8, Emotional_State = ''MODERATE STRESS'',
              Emotion_Score = 30 \<rparr>,
            \<lparr> Timestamp = ''2026-01-01 10:00:03'', Heart_Rate_BPM = 75, SpO2_Percent = 97,
              Temperature_Celsius = 36.8, Emotional_State = ''STABLE'',
              Emotion_Score = 0 \<rparr>]"
    using a1 a2 by (simp add: new_workbook_def)
  from serial_run_vital_log_holds_each_sensor_reading_once [OF f, of ?es]
  obtain wb' where "excel_file (snd (run_pool (serial_run (map thread_of ?es))
        (map thread_of ?es, initial_system))) = Some wb'"
    and "rows (Vital_Signs wb') = rows (Vital_Signs new_workbook) @ sensor_rows ?es"
    by blast
  with f show ?thesis by (simp only: r) blast
qed

text \<open>
  Without that condition a row of the sensor loop can be lost with the file in place: a
  dispatch opens its writer, which loads the workbook; a round of the sensor loop appends its
  row; the dispatch then leaves its \<open>with\<close> block and saves the workbook it had loaded.
  Both threads end, sheet Emergency_Calls has its row, and sheet Vital_Signs has none.
\<close>

lemma overlapping_dispatch_erases_sensor_row:
  "map_option (\<lambda>wb. (rows (Vital_Signs wb), length (rows (Emergency_Calls wb))))
     (excel_file (snd (run_pool [0, 0, 1, 1, 1, 1, 0, 0, 0, 0]
        ([dispatch_thread ''HEART''
            \<lparr> sd_hr = 155, sd_spo2 = 96, sd_temp = 37, sd_fall = False, sd_help = False \<rparr>
            False
            \<lparr> log_stamp = ''2026-01-01 10:00:00'', event_stamp = ''2026-01-01 10:00:00'',
              call_result = Call_Initiated ''CA01'', call_clock = 1 \<rparr>,
          sensor_thread 75 97 36.8 False ''2026-01-01 10:00:00'' 0],
         initial_system)))) = Some ([], 1)
   \<and> fst (run_pool [0, 0, 1, 1, 1, 1, 0, 0, 0, 0]
        ([dispatch_thread ''HEART''
            \<lparr> sd_hr = 155, sd_spo2 = 96, sd_temp = 37, sd_fall = False, sd_help = False \<rparr>
            False
            \<lparr> log_stamp = ''2026-01-01 10:00:00'', event_stamp = ''2026-01-01 10:00:00'',
              call_result = Call_Initiated ''CA01'', call_clock = 1 \<rparr>,
          sensor_thread 75 97 36.8 False ''2026-01-01 10:00:00'' 0],
         initial_system)) = [Ended None, Ended None]"
  by (simp add: dispatch_thread_def sensor_thread_def Let_def initial_system_def
      init_excel_file_def new_workbook_def emergency_call_update_def vital_reading_update_def
      overlay_def concat_row_def simulate_spawn analyze_score spec_rules_def
      matching_rules_def)

end
